theory Spec2Isabelle
  imports Complex_Main "HOL-Library.Sublist"
begin

section \<open>The shared frame buffer and the camera thread\<close>

text \<open>
  The program (\<^verbatim>\<open>bird_app.py\<close>) keeps the latest camera frame in the module global
  \<^verbatim>\<open>global_frame\<close>, a reference to a numpy array or \<^verbatim>\<open>None\<close>. Frames are mutable
  arrays that the code copies with \<^verbatim>\<open>frame.copy()\<close>, so the model has an explicit store:
  an address is a natural number, \<open>heap\<close> gives the pixel content of each array and
  \<open>next_addr\<close> is the first address not yet handed out. The world also holds what the
  capture pipeline acts on outside the process: the image files on disk (a store keyed by
  the path string, as the storage interface of the specification describes it) and the log
  of the images handed to the classifier.
\<close>

type_synonym frame = "nat list"

type_synonym addr = nat

record world =
  heap :: "addr \<Rightarrow> frame"
  next_addr :: addr
  global_frame :: "addr option"
  files :: "string \<rightharpoonup> frame"
  classified :: "frame list"

text \<open>A new numpy array holding \<open>f\<close>: the next free address is handed out.\<close>

definition alloc :: "frame \<Rightarrow> world \<Rightarrow> addr \<times> world" where
  "alloc f w = (next_addr w, w\<lparr>heap := (heap w)(next_addr w := f), next_addr := Suc (next_addr w)\<rparr>)"

text \<open>\<^verbatim>\<open>a.copy()\<close>: a new array with the content of the array at \<open>a\<close>.\<close>

definition np_copy :: "addr \<Rightarrow> world \<Rightarrow> addr \<times> world" where
  "np_copy a w = alloc (heap w a) w"

text \<open>An in-place write to the array at \<open>a\<close> (what \<^verbatim>\<open>cv2.putText\<close> does to its argument).\<close>

definition poke :: "addr \<Rightarrow> frame \<Rightarrow> world \<Rightarrow> world" where
  "poke a f w = w\<lparr>heap := (heap w)(a := f)\<rparr>"

text \<open>
  \<^verbatim>\<open>with frame_lock: global_frame = frame.copy()\<close> (lines 47-49 and 57-58): the buffer is
  set to a fresh copy of the array at \<open>s\<close>.
\<close>

definition publish :: "addr \<Rightarrow> world \<Rightarrow> world" where
  "publish s w = (let (b, w') = np_copy s w in w'\<lparr>global_frame := Some b\<rparr>)"

text \<open>
  \<^verbatim>\<open>with frame_lock: ... frame = global_frame.copy()\<close> (lines 79-82): \<open>None\<close> when
  nothing has been published, else the address of a fresh copy.
\<close>

definition snapshot :: "world \<Rightarrow> addr option \<times> world" where
  "snapshot w =
     (case global_frame w of
        None \<Rightarrow> (None, w)
      | Some b \<Rightarrow> (let (r, w') = np_copy b w in (Some r, w')))"

text \<open>The pixel content currently buffered, if any.\<close>

definition buffered :: "world \<Rightarrow> frame option" where
  "buffered w = map_option (heap w) (global_frame w)"

text \<open>
  \<^verbatim>\<open>ret, frame = self.cap.read()\<close>: the device either fails (\<open>None\<close>) or delivers the
  pixels \<open>f\<close>, which arrive in a new array.
\<close>

definition cap_read :: "frame option \<Rightarrow> world \<Rightarrow> addr option \<times> world" where
  "cap_read r w =
     (case r of
        None \<Rightarrow> (None, w)
      | Some f \<Rightarrow> (let (s, w') = alloc f w in (Some s, w')))"

text \<open>\<^verbatim>\<open>CameraThread.__init__\<close>, lines 46-49.\<close>

definition camera_init :: "frame option \<Rightarrow> world \<Rightarrow> world" where
  "camera_init r w =
     (case cap_read r w of
        (None, w') \<Rightarrow> w'\<lparr>global_frame := None\<rparr>
      | (Some s, w') \<Rightarrow> publish s w')"

text \<open>One cycle of the loop of \<^verbatim>\<open>CameraThread.run\<close>, lines 55-58.\<close>

definition camera_cycle :: "frame option \<Rightarrow> world \<Rightarrow> world" where
  "camera_cycle r w =
     (case cap_read r w of
        (None, w') \<Rightarrow> w'
      | (Some s, w') \<Rightarrow> publish s w')"

text \<open>
  The loop \<^verbatim>\<open>while not self.stopped\<close> runs one cycle per read until it is stopped; the
  list holds the outcome of each read the loop performed.
\<close>

fun camera_run :: "frame option list \<Rightarrow> world \<Rightarrow> world" where
  "camera_run [] w = w"
| "camera_run (r # rs) w = camera_run rs (camera_cycle r w)"

text \<open>The most recent successful read of a list of read outcomes.\<close>

fun last_success :: "frame option list \<Rightarrow> frame option" where
  "last_success [] = None"
| "last_success (r # rs) = (case last_success rs of Some f \<Rightarrow> Some f | None \<Rightarrow> r)"

section \<open>Strings, timestamps and paths\<close>

text \<open>
  Strings are byte strings (UTF-8). \<^verbatim>\<open>str.lower()\<close> is modelled on the ASCII letters;
  no character outside ASCII lowers to one of the letters of \<^verbatim>\<open>looney\<close>, so the test of
  line 94 reads the same on the bytes.
\<close>

definition lower_char :: "char \<Rightarrow> char" where
  "lower_char c =
     (case map_of (zip ''ABCDEFGHIJKLMNOPQRSTUVWXYZ'' ''abcdefghijklmnopqrstuvwxyz'') c of
        None \<Rightarrow> c
      | Some d \<Rightarrow> d)"

definition lower :: "string \<Rightarrow> string" where
  "lower s = map lower_char s"

text \<open>\<^verbatim>\<open>s.replace(" ", "_")\<close>.\<close>

definition replace_space :: "string \<Rightarrow> string" where
  "replace_space s = map (\<lambda>c. if c = CHR '' '' then CHR ''_'' else c) s"

text \<open>
  \<^verbatim>\<open>datetime.now()\<close> returns the fields of the local wall clock;
  \<^verbatim>\<open>strftime("%Y%m%d_%H%M%S")\<close> prints the year in decimal and the other fields down to
  the second with two digits each.
\<close>

record datetime =
  year :: nat
  month :: nat
  day :: nat
  hour :: nat
  minute :: nat
  second :: nat
  microsecond :: nat

definition digit :: "nat \<Rightarrow> char" where
  "digit n = ''0123456789'' ! (n mod 10)"

fun decimal :: "nat \<Rightarrow> string" where
  "decimal n = (if n < 10 then [digit n] else decimal (n div 10) @ [digit n])"

declare decimal.simps [simp del]

definition two_digits :: "nat \<Rightarrow> string" where
  "two_digits n = [digit (n div 10), digit n]"

definition strftime :: "datetime \<Rightarrow> string" where
  "strftime dt =
     decimal (year dt) @ two_digits (month dt) @ two_digits (day dt) @ ''_'' @
     two_digits (hour dt) @ two_digits (minute dt) @ two_digits (second dt)"

text \<open>The two f-strings of lines 84 and 101.\<close>

definition raw_path :: "string \<Rightarrow> string \<Rightarrow> string" where
  "raw_path mode timestamp = mode @ ''_birds/bird_'' @ timestamp @ ''.jpg''"

definition final_path :: "string \<Rightarrow> string \<Rightarrow> string \<Rightarrow> string" where
  "final_path mode safe_label timestamp = mode @ ''_birds/'' @ safe_label @ ''_'' @ timestamp @ ''.jpg''"

section \<open>The capture pipeline\<close>

text \<open>
  One entry of the classifier's ranked output, \<^verbatim>\<open>{"label": ..., "score": ...}\<close>. The
  score is a Python float; the model takes it as a real number, so the product
  \<^verbatim>\<open>score * 100\<close> is exact here.
\<close>

record prediction =
  label :: string
  score :: real

datatype error = FileNotFoundError | TypeError

text \<open>\<^verbatim>\<open>cv2.imwrite(path, frame)\<close> and \<^verbatim>\<open>os.rename(src, dst)\<close> on the file store.\<close>

definition imwrite :: "string \<Rightarrow> frame \<Rightarrow> (string \<rightharpoonup> frame) \<Rightarrow> (string \<rightharpoonup> frame)" where
  "imwrite path f fs = fs(path \<mapsto> f)"

definition os_rename :: "string \<Rightarrow> string \<Rightarrow> (string \<rightharpoonup> frame) \<Rightarrow> error + (string \<rightharpoonup> frame)" where
  "os_rename src dst fs =
     (case fs src of
        None \<Rightarrow> Inl FileNotFoundError
      | Some c \<Rightarrow> Inr ((fs(src := None))(dst \<mapsto> c)))"

text \<open>Lines 88-99: the decision on the ranked predictions.\<close>

definition decide :: "prediction list \<Rightarrow> string \<times> real" where
  "decide predictions =
     (case predictions of
        [] \<Rightarrow> (''Unknown'', 0)
      | top_pred # _ \<Rightarrow>
          (let conf = score top_pred * 100 in
           if conf \<ge> 50 \<and> \<not> sublist ''looney'' (lower (label top_pred))
           then (label top_pred, conf)
           else (''Unknown'', conf)))"

text \<open>
  \<^verbatim>\<open>capture_and_identify\<close> up to the call of the classifier (lines 78-87): the snapshot
  of the buffer, the timestamp, the provisional file, and the image handed to the
  classifier. \<open>None\<close> is the early return of line 81.
\<close>

definition capture_begin :: "string \<Rightarrow> datetime \<Rightarrow> world \<Rightarrow> (addr \<times> world) option" where
  "capture_begin mode dt w =
     (case snapshot w of
        (None, _) \<Rightarrow> None
      | (Some r, w1) \<Rightarrow>
          (let timestamp = strftime dt;
               w2 = w1\<lparr>files := imwrite (raw_path mode timestamp) (heap w1 r) (files w1)\<rparr>
           in Some (r, w2\<lparr>classified := classified w2 @ [heap w2 r]\<rparr>)))"

text \<open>
  \<^verbatim>\<open>capture_and_identify(mode)\<close>. \<open>dt\<close> is what \<^verbatim>\<open>datetime.now()\<close> returns during the
  call and \<open>predictions\<close> what the classifier answers. The result is the triple
  \<^verbatim>\<open>(bird_name, confidence, frame)\<close> and the world after the call.
\<close>

definition capture_and_identify ::
  "string \<Rightarrow> datetime \<Rightarrow> prediction list \<Rightarrow> world \<Rightarrow> error + ((string \<times> real \<times> addr option) \<times> world)" where
  "capture_and_identify mode dt predictions w =
     (case capture_begin mode dt w of
        None \<Rightarrow> Inr ((''Unknown'', 0, None), w)
      | Some (r, w3) \<Rightarrow>
          (let timestamp = strftime dt;
               (bird_name, confidence) = decide predictions;
               safe_label = replace_space bird_name
           in case os_rename (raw_path mode timestamp) (final_path mode safe_label timestamp) (files w3) of
                Inl e \<Rightarrow> Inl e
              | Inr fs \<Rightarrow> Inr ((bird_name, confidence, Some r), w3\<lparr>files := fs\<rparr>)))"

section \<open>The application: modes, freeze flags and the arcade session\<close>

text \<open>
  \<open>screen\<close> is the frame that \<^verbatim>\<open>show_frame\<close> packed last; for the frame of a mode,
  \<^verbatim>\<open>winfo_manager() == ""\<close> holds exactly when another one is shown. A \<open>callback\<close>
  names a method registered with \<^verbatim>\<open>after(ms, ...)\<close>.
\<close>

datatype screen = Menu | Explore | Arcade

datatype callback =
    Resume_explore
  | Update_explore_frame
  | Poll_button_explore
  | Resume_arcade_update
  | Poll_button_arcade
  | Update_arcade_frame
  | Back_to_menu

text \<open>
  The fields of \<^verbatim>\<open>BAIApp\<close> that the mode logic reads and writes, and the timers that
  are registered and have not fired. The widgets and the images rendered on them are left
  out: nothing in the mode logic reads them back.
\<close>

record app =
  shown :: screen
  freeze_explore :: bool
  arcade_total :: real
  arcade_running :: bool
  freeze_arcade :: bool
  arcade_start_time :: "real option"
  pause_start_time :: "real option"
  arcade_score :: int
  arcade_birds :: "string set"
  timers :: "(nat \<times> callback) list"

text \<open>
  What a handler reads from outside while it runs: \<^verbatim>\<open>time.time()\<close>,
  \<^verbatim>\<open>datetime.now()\<close>, the answer of the classifier and whether the button pin reads
  \<^verbatim>\<open>GPIO.LOW\<close>. A handler is taken to run in one instant: every \<^verbatim>\<open>time.time()\<close> in it
  reads the same value.
\<close>

record env =
  time_now :: real
  datetime_now :: datetime
  classifier_out :: "prediction list"
  gpio_low :: bool

text \<open>\<^verbatim>\<open>BAIApp.__init__\<close>, lines 150-169.\<close>

definition init_app :: app where
  "init_app =
     \<lparr>shown = Menu, freeze_explore = False, arcade_total = 60, arcade_running = False,
      freeze_arcade = False, arcade_start_time = None, pause_start_time = None,
      arcade_score = 0, arcade_birds = {}, timers = []\<rparr>"

definition show_frame :: "screen \<Rightarrow> app \<Rightarrow> app" where
  "show_frame fr a = a\<lparr>shown := fr\<rparr>"

definition after :: "nat \<Rightarrow> callback \<Rightarrow> app \<Rightarrow> app" where
  "after ms cb a = a\<lparr>timers := timers a @ [(ms, cb)]\<rparr>"

definition back_to_menu :: "app \<Rightarrow> app" where
  "back_to_menu a = show_frame Menu (a\<lparr>arcade_running := False\<rparr>)"

subsection \<open>Explore mode\<close>

definition on_explore_capture :: "env \<Rightarrow> app \<Rightarrow> world \<Rightarrow> error + (app \<times> world)" where
  "on_explore_capture e a w =
     (if freeze_explore a then Inr (a, w)
      else
        (let a1 = a\<lparr>freeze_explore := True\<rparr> in
         case capture_and_identify ''captured'' (datetime_now e) (classifier_out e) w of
           Inl err \<Rightarrow> Inl err
         | Inr ((bird_name, conf, captured_frame), w') \<Rightarrow>
             (if captured_frame = None then Inr (a1\<lparr>freeze_explore := False\<rparr>, w')
              else Inr (after 2000 Resume_explore a1, w'))))"

definition resume_explore :: "app \<Rightarrow> app" where
  "resume_explore a = a\<lparr>freeze_explore := False\<rparr>"

definition update_explore_frame :: "app \<Rightarrow> app" where
  "update_explore_frame a =
     (if shown a \<noteq> Explore then a else after 33 Update_explore_frame a)"

definition poll_button_explore :: "env \<Rightarrow> app \<Rightarrow> world \<Rightarrow> error + (app \<times> world)" where
  "poll_button_explore e a w =
     (if shown a \<noteq> Explore then Inr (after 100 Poll_button_explore a, w)
      else if gpio_low e \<and> \<not> freeze_explore a then
        (case on_explore_capture e a w of
           Inl err \<Rightarrow> Inl err
         | Inr (a', w') \<Rightarrow> Inr (after 300 Poll_button_explore a', w'))
      else Inr (after 100 Poll_button_explore a, w))"

definition start_explore :: "env \<Rightarrow> app \<Rightarrow> world \<Rightarrow> error + (app \<times> world)" where
  "start_explore e a w =
     (let a1 = show_frame Explore a;
          a2 = a1\<lparr>freeze_explore := False\<rparr>;
          a3 = update_explore_frame a2
      in poll_button_explore e a3 w)"

subsection \<open>Arcade mode\<close>

text \<open>Lines 307-310: the score and the set of birds after an identification.\<close>

definition score_capture :: "string \<Rightarrow> real \<Rightarrow> app \<Rightarrow> app" where
  "score_capture bird_name conf a =
     (if bird_name \<noteq> ''Unknown'' \<and> conf \<ge> 50 then
        (if bird_name \<notin> arcade_birds a
         then a\<lparr>arcade_birds := insert bird_name (arcade_birds a), arcade_score := arcade_score a + 1\<rparr>
         else a)
      else a)"

definition on_arcade_capture :: "env \<Rightarrow> app \<Rightarrow> world \<Rightarrow> error + (app \<times> world)" where
  "on_arcade_capture e a w =
     (if \<not> arcade_running a \<or> freeze_arcade a then Inr (a, w)
      else
        (let a1 = a\<lparr>freeze_arcade := True, pause_start_time := Some (time_now e)\<rparr> in
         case capture_and_identify ''arcade'' (datetime_now e) (classifier_out e) w of
           Inl err \<Rightarrow> Inl err
         | Inr ((bird_name, conf, captured_frame), w') \<Rightarrow>
             (if captured_frame = None then Inr (a1\<lparr>freeze_arcade := False\<rparr>, w')
              else Inr (after 2000 Resume_arcade_update (score_capture bird_name conf a1), w'))))"

text \<open>
  Lines 321-323. Either time still being \<^verbatim>\<open>None\<close> makes the arithmetic raise
  \<^verbatim>\<open>TypeError\<close> before any field is written.
\<close>

definition resume_arcade_update :: "env \<Rightarrow> app \<Rightarrow> error + app" where
  "resume_arcade_update e a =
     (case pause_start_time a of
        None \<Rightarrow> Inl TypeError
      | Some p \<Rightarrow>
          (let pause_duration = time_now e - p in
           case arcade_start_time a of
             None \<Rightarrow> Inl TypeError
           | Some s \<Rightarrow> Inr (a\<lparr>arcade_start_time := Some (s + pause_duration), freeze_arcade := False\<rparr>)))"

definition poll_button_arcade :: "env \<Rightarrow> app \<Rightarrow> world \<Rightarrow> error + (app \<times> world)" where
  "poll_button_arcade e a w =
     (if \<not> arcade_running a \<or> shown a \<noteq> Arcade then Inr (after 100 Poll_button_arcade a, w)
      else if gpio_low e \<and> \<not> freeze_arcade a then
        (case on_arcade_capture e a w of
           Inl err \<Rightarrow> Inl err
         | Inr (a', w') \<Rightarrow> Inr (after 300 Poll_button_arcade a', w'))
      else Inr (after 100 Poll_button_arcade a, w))"

definition show_arcade_final :: "app \<Rightarrow> app" where
  "show_arcade_final a = after 2000 Back_to_menu a"

text \<open>Lines 339-340: the time left that a countdown tick at time \<open>t\<close> computes.\<close>

definition remaining :: "real \<Rightarrow> app \<Rightarrow> real option" where
  "remaining t a =
     (case arcade_start_time a of
        None \<Rightarrow> None
      | Some s \<Rightarrow> (let elapsed = t - s in Some (arcade_total a - elapsed)))"

definition update_arcade_frame :: "env \<Rightarrow> app \<Rightarrow> error + app" where
  "update_arcade_frame e a =
     (if \<not> arcade_running a \<or> shown a \<noteq> Arcade then Inr a
      else if \<not> freeze_arcade a then
        (case remaining (time_now e) a of
           None \<Rightarrow> Inl TypeError
         | Some rem \<Rightarrow>
             (if rem \<le> 0 then Inr (show_arcade_final (a\<lparr>arcade_running := False\<rparr>))
              else Inr (after 33 Update_arcade_frame a)))
      else Inr (after 33 Update_arcade_frame a))"

definition end_arcade_early :: "app \<Rightarrow> app" where
  "end_arcade_early a =
     (if arcade_running a then show_arcade_final (a\<lparr>arcade_running := False\<rparr>)
      else back_to_menu a)"

definition start_arcade :: "env \<Rightarrow> app \<Rightarrow> world \<Rightarrow> error + (app \<times> world)" where
  "start_arcade e a w =
     (let a1 = a\<lparr>arcade_score := 0, arcade_birds := {}, arcade_running := True,
                 freeze_arcade := False, arcade_start_time := Some (time_now e)\<rparr>;
          a2 = show_frame Arcade a1
      in case update_arcade_frame e a2 of
           Inl err \<Rightarrow> Inl err
         | Inr a3 \<Rightarrow> poll_button_arcade e a3 w)"

subsection \<open>The event loop\<close>

text \<open>
  The events that Tk's main loop and the camera thread deliver. A button or a label
  receives a click only while its frame is shown; a timer fires only if it is registered,
  and firing removes it. The camera thread runs its cycles in between.
\<close>

datatype event =
    Press_explore_mode
  | Press_arcade_mode
  | Touch_explore
  | Touch_arcade
  | Back_explore
  | Back_arcade
  | Timer callback
  | Camera "frame option"

fun pop_timer :: "callback \<Rightarrow> (nat \<times> callback) list \<Rightarrow> (nat \<times> callback) list" where
  "pop_timer cb [] = []"
| "pop_timer cb ((ms, cb') # ts) = (if cb' = cb then ts else (ms, cb') # pop_timer cb ts)"

definition lift_app :: "world \<Rightarrow> error + app \<Rightarrow> error + (app \<times> world)" where
  "lift_app w r = (case r of Inl err \<Rightarrow> Inl err | Inr a \<Rightarrow> Inr (a, w))"

definition fire :: "callback \<Rightarrow> env \<Rightarrow> app \<Rightarrow> world \<Rightarrow> error + (app \<times> world)" where
  "fire cb e a w =
     (case cb of
        Resume_explore \<Rightarrow> Inr (resume_explore a, w)
      | Update_explore_frame \<Rightarrow> Inr (update_explore_frame a, w)
      | Poll_button_explore \<Rightarrow> poll_button_explore e a w
      | Resume_arcade_update \<Rightarrow> lift_app w (resume_arcade_update e a)
      | Poll_button_arcade \<Rightarrow> poll_button_arcade e a w
      | Update_arcade_frame \<Rightarrow> lift_app w (update_arcade_frame e a)
      | Back_to_menu \<Rightarrow> Inr (back_to_menu a, w))"

definition step :: "env \<Rightarrow> event \<Rightarrow> app \<Rightarrow> world \<Rightarrow> error + (app \<times> world)" where
  "step e ev a w =
     (case ev of
        Press_explore_mode \<Rightarrow> (if shown a = Menu then start_explore e a w else Inr (a, w))
      | Press_arcade_mode \<Rightarrow> (if shown a = Menu then start_arcade e a w else Inr (a, w))
      | Touch_explore \<Rightarrow> (if shown a = Explore then on_explore_capture e a w else Inr (a, w))
      | Touch_arcade \<Rightarrow> (if shown a = Arcade then on_arcade_capture e a w else Inr (a, w))
      | Back_explore \<Rightarrow> (if shown a = Explore then Inr (back_to_menu a, w) else Inr (a, w))
      | Back_arcade \<Rightarrow> (if shown a = Arcade then Inr (end_arcade_early a, w) else Inr (a, w))
      | Timer cb \<Rightarrow>
          (if cb \<in> snd ` set (timers a)
           then fire cb e (a\<lparr>timers := pop_timer cb (timers a)\<rparr>) w
           else Inr (a, w))
      | Camera r \<Rightarrow> Inr (a, camera_cycle r w))"

text \<open>
  A run of the program from a state: the events in order, each with what its handler
  reads from outside. An exception ends the run.
\<close>

fun run :: "(env \<times> event) list \<Rightarrow> app \<Rightarrow> world \<Rightarrow> error + (app \<times> world)" where
  "run [] a w = Inr (a, w)"
| "run ((e, ev) # evs) a w =
     (case step e ev a w of
        Inl err \<Rightarrow> Inl err
      | Inr (a', w') \<Rightarrow> run evs a' w')"

section \<open>Notions of the specification\<close>










section \<open>Example states\<close>

text \<open>
  A world in which two arrays are allocated and nothing is published yet, and one in
  which the camera thread has published the frame \<open>[7, 8, 9]\<close>.
\<close>

definition w_ex :: world where
  "w_ex = \<lparr>heap = (\<lambda>_. [])(0 := [1, 2, 3], 1 := [4, 5, 6]), next_addr = 2, global_frame = None,
           files = Map.empty, classified = []\<rparr>"

definition w_cam :: world where
  "w_cam = \<lparr>heap = (\<lambda>_. [])(0 := [7, 8, 9], 1 := [7, 8, 9]), next_addr = 2, global_frame = Some 1,
            files = Map.empty, classified = []\<rparr>"

text \<open>A wall-clock reading and three classifier answers.\<close>

definition dt_ex :: datetime where
  "dt_ex = \<lparr>year = 2024, month = 3, day = 9, hour = 7, minute = 5, second = 59, microsecond = 123456\<rparr>"

definition p_robin :: prediction where
  "p_robin = \<lparr>label = ''AMERICAN ROBIN'', score = 0.92\<rparr>"



text \<open>
  What a handler reads at second 10 of a session, with the classifier sure of a robin; and
  the application as \<^verbatim>\<open>start_arcade\<close> leaves it at time 0.
\<close>

definition e_robin :: env where
  "e_robin = \<lparr>time_now = 10, datetime_now = dt_ex, classifier_out = [p_robin], gpio_low = False\<rparr>"

definition a_session :: app where
  "a_session =
     \<lparr>shown = Arcade, freeze_explore = False, arcade_total = 60, arcade_running = True,
      freeze_arcade = False, arcade_start_time = Some 0, pause_start_time = None,
      arcade_score = 0, arcade_birds = {},
      timers = [(33, Update_arcade_frame), (100, Poll_button_arcade)]\<rparr>"

text \<open>
  A short session: Arcade is entered at time 0 with the button up, the robin is captured
  at second 10, the display ends at second 12, and the same robin is captured again at
  second 20.
\<close>

definition e_start :: env where
  "e_start = \<lparr>time_now = 0, datetime_now = dt_ex, classifier_out = [], gpio_low = False\<rparr>"


text \<open>
  A session that is left while a result is on display: the robin is captured at second
  10, the user presses Back twice at second 11 (the first press ends the session and
  shows the final score, the second returns to the menu) and enters Arcade again in the
  same second. The resume of the first session is still registered.
\<close>

definition stale_trace :: "(env \<times> event) list" where
  "stale_trace =
     [(e_start, Press_arcade_mode),
      (e_robin, Touch_arcade),
      (e_robin\<lparr>time_now := 11\<rparr>, Back_arcade),
      (e_robin\<lparr>time_now := 11\<rparr>, Back_arcade),
      (e_robin\<lparr>time_now := 11\<rparr>, Press_arcade_mode)]"

section \<open>Properties of the frame buffer and the acquisition loop\<close>

lemma buffered_publish: "buffered (publish s w) = Some (heap w s)"
  by (simp add: publish_def np_copy_def alloc_def buffered_def)

lemma global_frame_publish: "global_frame (publish s w) = Some (next_addr w)"
  by (simp add: publish_def np_copy_def alloc_def)

lemma next_addr_publish: "next_addr (publish s w) = Suc (next_addr w)"
  by (simp add: publish_def np_copy_def alloc_def)

lemma camera_cycle_None: "camera_cycle None w = w"
  by (simp add: camera_cycle_def cap_read_def)

lemma camera_cycle_Some: "buffered (camera_cycle (Some f) w) = Some f"
  by (simp add: camera_cycle_def cap_read_def alloc_def buffered_publish)

lemma buffered_camera_cycle:
  "buffered (camera_cycle r w) = (case r of None \<Rightarrow> buffered w | Some f \<Rightarrow> Some f)"
  by (cases r) (simp_all add: camera_cycle_None camera_cycle_Some)

lemma buffered_camera_init: "buffered (camera_init r w) = r"
proof (cases r)
  case None
  then show ?thesis
    by (simp add: camera_init_def cap_read_def buffered_def)
next
  case (Some f)
  then show ?thesis
    by (simp add: camera_init_def cap_read_def alloc_def buffered_publish)
qed

lemma buffered_camera_run:
  "buffered (camera_run rs w) = (case last_success rs of None \<Rightarrow> buffered w | Some f \<Rightarrow> Some f)"
proof (induction rs arbitrary: w)
  case Nil
  show ?case by simp
next
  case (Cons r rs)
  show ?case
    by (cases r; cases "last_success rs") (simp_all add: Cons.IH buffered_camera_cycle)
qed

lemma source_not_buffer:
  "global_frame (camera_cycle (Some f) w) \<noteq> fst (cap_read (Some f) w)"
  by (simp add: camera_cycle_def cap_read_def alloc_def global_frame_publish)

text \<open>
  \<open>last_success\<close> is the last successful read: the one after which every read failed.
\<close>

lemma last_success_all_failed: "last_success (replicate n None) = None"
  by (induction n) simp_all

lemma last_success_append_Some:
  "last_success (rs @ Some f # replicate n None) = Some f"
  by (induction rs) (simp_all add: last_success_all_failed)

text \<open>
  C7. A cycle whose read fails leaves the whole world as it was (and the model has no
  error branch: nothing is raised); a cycle whose read delivers \<open>f\<close> leaves \<open>f\<close> in the
  buffer, in an array that is not the one the read returned. After the constructor's read
  \<open>r\<close> and any cycles \<open>rs\<close> the buffer holds the last successful read, which is \<open>f\<close> when
  every read after \<open>f\<close> failed, and nothing when every read failed.
\<close>

theorem acquisition_loop_buffer:
  "camera_cycle None w = w \<and>
   buffered (camera_cycle (Some f) w) = Some f \<and>
   global_frame (camera_cycle (Some f) w) \<noteq> fst (cap_read (Some f) w) \<and>
   buffered (camera_run rs (camera_init r w)) = last_success (r # rs) \<and>
   buffered (camera_run (rs @ Some f # replicate n None) (camera_init r w)) = Some f \<and>
   buffered (camera_run (replicate n None) (camera_init None w)) = None"
proof -
  have "buffered (camera_run rs' (camera_init r' w)) = last_success (r' # rs')" for r' rs'
    by (simp add: buffered_camera_run buffered_camera_init split: option.split)
  then show ?thesis
    by (simp add: camera_cycle_None camera_cycle_Some source_not_buffer
        last_success_all_failed last_success_append_Some)
qed

lemma next_addr_fold_publish: "next_addr w \<le> next_addr (fold publish ss w)"
proof (induction ss arbitrary: w)
  case Nil
  show ?case by simp
next
  case (Cons s ss)
  have "next_addr w \<le> next_addr (publish s w)"
    by (simp add: next_addr_publish)
  also have "\<dots> \<le> next_addr (fold publish ss (publish s w))"
    by (rule Cons.IH)
  finally show ?case by simp
qed

lemma heap_publish_old: "a < next_addr w \<Longrightarrow> heap (publish s w) a = heap w a"
  by (simp add: publish_def np_copy_def alloc_def)

lemma heap_fold_publish_old: "a < next_addr w \<Longrightarrow> heap (fold publish ss w) a = heap w a"
proof (induction ss arbitrary: w)
  case Nil
  show ?case by simp
next
  case (Cons s ss)
  then show ?case
    by (simp add: heap_publish_old next_addr_publish)
qed

lemma publish_then_snapshot:
  assumes "s < next_addr w"
  shows "\<exists>b r w'. global_frame (publish s w) = Some b \<and> b \<noteq> s \<and>
           snapshot (publish s w) = (Some r, w') \<and> r \<noteq> b \<and>
           heap w' r = heap w s \<and>
           buffered w' = Some (heap w s) \<and>
           buffered (poke r g w') = Some (heap w s) \<and>
           buffered (poke s g (publish s w)) = Some (heap w s)"
  using assms
  by (simp add: publish_def snapshot_def np_copy_def alloc_def poke_def buffered_def)

text \<open>
  C8. \<open>s\<close> is an array that exists (its address has been handed out) and \<open>ss\<close> are the
  arrays published before it. After the publishes the buffer is an array \<open>b\<close> other than
  \<open>s\<close>; a snapshot returns a third array \<open>r\<close> with the pixels that \<open>s\<close> had, and leaves the
  buffer as it was. Overwriting the reader's copy \<open>r\<close> or the writer's source \<open>s\<close> with any
  pixels \<open>g\<close> leaves the buffered pixels as they were.
\<close>

theorem frame_buffer_last_publish:
  assumes "s < next_addr w"
  shows "\<exists>b r w'. global_frame (fold publish (ss @ [s]) w) = Some b \<and> b \<noteq> s \<and>
           snapshot (fold publish (ss @ [s]) w) = (Some r, w') \<and> r \<noteq> b \<and>
           heap w' r = heap w s \<and>
           buffered w' = Some (heap w s) \<and>
           buffered (poke r g w') = Some (heap w s) \<and>
           buffered (poke s g (fold publish (ss @ [s]) w)) = Some (heap w s)"
proof -
  have "s < next_addr (fold publish ss w)"
    using assms next_addr_fold_publish [of w ss] by simp
  from publish_then_snapshot [OF this, of g]
  show ?thesis
    using assms by (simp add: heap_fold_publish_old)
qed

theorem frame_buffer_last_publish_witness:
  "(1::nat) < next_addr w_ex \<and>
   (\<exists>b r w'. global_frame (fold publish ([0] @ [1]) w_ex) = Some b \<and> b \<noteq> 1 \<and>
           snapshot (fold publish ([0] @ [1]) w_ex) = (Some r, w') \<and> r \<noteq> b \<and>
           heap w' r = [4, 5, 6] \<and>
           buffered w' = Some [4, 5, 6] \<and>
           buffered (poke r [9] w') = Some [4, 5, 6] \<and>
           buffered (poke 1 [9] (fold publish ([0] @ [1]) w_ex)) = Some [4, 5, 6])"
proof -
  have h: "(1::nat) < next_addr w_ex"
    by (simp add: w_ex_def)
  have c: "heap w_ex 1 = [4, 5, 6]"
    by (simp add: w_ex_def)
  show ?thesis
    using h frame_buffer_last_publish [OF h, of "[0]" "[9]"] unfolding c by simp
qed

section \<open>Properties of timestamps and labels\<close>











section \<open>Properties of the capture pipeline\<close>





lemma capture_begin_Some:
  assumes "global_frame w = Some b"
  shows "capture_begin mode dt w =
           Some (next_addr w,
                 w\<lparr>heap := (heap w)(next_addr w := heap w b), next_addr := Suc (next_addr w),
                   files := (files w)(raw_path mode (strftime dt) \<mapsto> heap w b),
                   classified := classified w @ [heap w b]\<rparr>)"
  using assms
  by (simp add: capture_begin_def snapshot_def np_copy_def alloc_def imwrite_def)

lemma capture_begin_None:
  assumes "global_frame w = None"
  shows "capture_begin mode dt w = None"
  using assms by (simp add: capture_begin_def snapshot_def)

lemma capture_and_identify_Some:
  assumes "global_frame w = Some b"
  shows "capture_and_identify mode dt predictions w =
           Inr ((fst (decide predictions), snd (decide predictions), Some (next_addr w)),
                w\<lparr>heap := (heap w)(next_addr w := heap w b), next_addr := Suc (next_addr w),
                  files := ((files w)(raw_path mode (strftime dt) := None))
                             (final_path mode (replace_space (fst (decide predictions))) (strftime dt) \<mapsto> heap w b),
                  classified := classified w @ [heap w b]\<rparr>)"
  by (simp add: capture_and_identify_def capture_begin_Some [OF assms] os_rename_def Let_def
      split: prod.split)



lemma capture_and_identify_None:
  assumes "global_frame w = None"
  shows "capture_and_identify mode dt predictions w = Inr ((''Unknown'', 0, None), w)"
  by (simp add: capture_and_identify_def capture_begin_None [OF assms])

text \<open>
  C2. With nothing published, \<^verbatim>\<open>capture_and_identify\<close> returns the triple
  \<^verbatim>\<open>("Unknown", 0, None)\<close> as a value (no exception), and the world after the call is the
  world before it: no file is written and nothing is handed to the classifier.
\<close>

theorem capture_empty_buffer:
  assumes "global_frame w = None"
  shows "\<exists>w'. capture_and_identify mode dt predictions w = Inr ((''Unknown'', 0, None), w') \<and>
              w' = w \<and> files w' = files w \<and> classified w' = classified w"
  by (simp add: capture_and_identify_None [OF assms])

theorem capture_empty_buffer_witness:
  "global_frame w_ex = None \<and>
   (\<exists>w'. capture_and_identify ''explore'' dt_ex [p_robin] w_ex = Inr ((''Unknown'', 0, None), w') \<and>
         w' = w_ex \<and> files w' = Map.empty \<and> classified w' = [])"
proof -
  have h: "global_frame w_ex = None"
    by (simp add: w_ex_def)
  have "files w_ex = Map.empty" "classified w_ex = []"
    by (simp_all add: w_ex_def)
  with h capture_empty_buffer [OF h, of "''explore''" dt_ex "[p_robin]"] show ?thesis
    by simp
qed




subsection \<open>The capture handlers\<close>

text \<open>Entering Arcade from the initial state at time 0, button up, gives \<open>a_session\<close>.\<close>

lemma start_arcade_init:
  "start_arcade \<lparr>time_now = 0, datetime_now = dt, classifier_out = ps, gpio_low = False\<rparr> init_app w
     = Inr (a_session, w)"
  by (simp add: start_arcade_def init_app_def show_frame_def update_arcade_frame_def remaining_def
      after_def poll_button_arcade_def a_session_def)













lemma decide_robin: "decide [p_robin] = (''AMERICAN ROBIN'', 92)"
  by (simp add: decide_def p_robin_def lower_def lower_char_def sublist_code)



section \<open>Properties of the modes\<close>






text \<open>
  C6. A capture request that arrives while the freeze flag of its mode is set, or for
  Arcade while no session is running, changes nothing: the touch handler returns the
  application and the world as they were (no file, no classifier call, the same score,
  birds, flags and times), and the button poll only registers its next poll.
\<close>

theorem freeze_gating:
  "(freeze_explore a \<longrightarrow>
      on_explore_capture e a w = Inr (a, w) \<and>
      step e Touch_explore a w = Inr (a, w) \<and>
      poll_button_explore e a w = Inr (a\<lparr>timers := timers a @ [(100, Poll_button_explore)]\<rparr>, w)) \<and>
   (freeze_arcade a \<or> \<not> arcade_running a \<longrightarrow>
      on_arcade_capture e a w = Inr (a, w) \<and>
      step e Touch_arcade a w = Inr (a, w) \<and>
      poll_button_arcade e a w = Inr (a\<lparr>timers := timers a @ [(100, Poll_button_arcade)]\<rparr>, w))"
  by (simp add: on_explore_capture_def on_arcade_capture_def step_def poll_button_explore_def
      poll_button_arcade_def after_def)

theorem freeze_gating_witness:
  "freeze_explore (a_session\<lparr>freeze_explore := True, freeze_arcade := True\<rparr>) \<and>
   on_explore_capture e_robin (a_session\<lparr>freeze_explore := True, freeze_arcade := True\<rparr>) w_cam
     = Inr (a_session\<lparr>freeze_explore := True, freeze_arcade := True\<rparr>, w_cam) \<and>
   freeze_arcade (a_session\<lparr>freeze_explore := True, freeze_arcade := True\<rparr>) \<and>
   on_arcade_capture e_robin (a_session\<lparr>freeze_explore := True, freeze_arcade := True\<rparr>) w_cam
     = Inr (a_session\<lparr>freeze_explore := True, freeze_arcade := True\<rparr>, w_cam) \<and>
   \<not> arcade_running init_app \<and>
   on_arcade_capture e_robin init_app w_cam = Inr (init_app, w_cam)"
  using freeze_gating [of "a_session\<lparr>freeze_explore := True, freeze_arcade := True\<rparr>" e_robin w_cam]
    freeze_gating [of init_app e_robin w_cam]
  by (simp add: init_app_def)

section \<open>The score and the set of birds\<close>


lemma capture_and_identify_total:
  "\<exists>n c fr w'. capture_and_identify mode dt ps w = Inr ((n, c, fr), w')"
proof (cases "global_frame w")
  case None
  then show ?thesis
    by (simp add: capture_and_identify_None)
next
  case (Some b)
  then show ?thesis
    by (simp add: capture_and_identify_Some)
qed































section \<open>Scoring over a session\<close>

















section \<open>Callbacks that outlive their session\<close>


text \<open>
  The refresh ticks test their mode first and return at once when it is not the active
  one.
\<close>

lemma stale_ticks_return:
  "(shown a \<noteq> Explore \<longrightarrow> update_explore_frame a = a) \<and>
   (\<not> arcade_running a \<or> shown a \<noteq> Arcade \<longrightarrow> update_arcade_frame e a = Inr a)"
  by (simp add: update_explore_frame_def update_arcade_frame_def)

text \<open>
  C9. The resume callbacks do not test the mode: \<^verbatim>\<open>resume_arcade_update\<close> (lines 320-323)
  adds its pause to the start time and clears the freeze flag whatever the state is. In
  the run \<open>stale_trace\<close> the second session starts at second 11 with 59 seconds left at
  second 12; the resume that the first session registered fires at second 12 and moves
  the start time of the second session to 13, so that 61 of its 60 seconds are left. The
  return to the menu that the final display of the first session registered then fires
  and ends the second session. A callback left over from the previous session is thus not
  a no-op on the new one.
\<close>

theorem stale_resume_moves_new_session:
  "\<exists>a w a' w' a'' w''.
     run stale_trace init_app w_cam = Inr (a, w) \<and>
     shown a = Arcade \<and> arcade_running a \<and> \<not> freeze_arcade a \<and> arcade_score a = 0 \<and>
     arcade_start_time a = Some 11 \<and> remaining 12 a = Some 59 \<and>
     step (e_robin\<lparr>time_now := 12\<rparr>) (Timer Resume_arcade_update) a w = Inr (a', w') \<and>
     arcade_start_time a' = Some 13 \<and> remaining 12 a' = Some 61 \<and>
     step (e_robin\<lparr>time_now := 13\<rparr>) (Timer Back_to_menu) a' w' = Inr (a'', w'') \<and>
     \<not> arcade_running a'' \<and> shown a'' = Menu"
  by (simp add: stale_trace_def step_def init_app_def e_start_def e_robin_def
      start_arcade_def show_frame_def update_arcade_frame_def remaining_def after_def
      poll_button_arcade_def on_arcade_capture_def capture_and_identify_def capture_begin_def
      snapshot_def np_copy_def alloc_def imwrite_def os_rename_def raw_path_def final_path_def
      decide_robin score_capture_def fire_def lift_app_def resume_arcade_update_def
      end_arcade_early_def show_arcade_final_def back_to_menu_def
      w_cam_def Let_def)

end
